theory Spec2Isabelle
  imports Main "HOL-Library.Sublist" "HOL-Library.Monad_Syntax"
begin

section \<open>The tool registry (tool.go, and the copy inside the older program file)\<close>

text \<open>
  The three tools are closures stored in the slice \<^verbatim>\<open>Tools\<close>. They call the Go standard
  library and two third-party packages. Those callees are not part of the repository; they
  are the fields of the record \<open>world\<close>, and every theorem below holds for every world unless
  it says otherwise. A Go \<^verbatim>\<open>error\<close> is a value with its \<^verbatim>\<open>Error()\<close> text; a nil error
  is \<open>None\<close>; a nil pointer is \<open>None\<close> too.
\<close>

datatype go_error = GoError string

fun Error :: "go_error \<Rightarrow> string" where
  "Error (GoError s) = s"

text \<open>\<^verbatim>\<open>fmt.Sprintf("%v", err)\<close> on a non-nil error prints \<^verbatim>\<open>err.Error()\<close>.\<close>

definition Sprintf_v :: "go_error \<Rightarrow> string" where
  "Sprintf_v err = Error err"

text \<open>
  A handler either returns its string or panics. Beside the outcome the model records the
  outbound calls the handler issued, in order.
\<close>

datatype outcome = Returned string | Panicked string

record Request =
  Method :: string
  URL :: string
  Header :: "string \<rightharpoonup> string"

record Response =
  StatusCode :: int
  Body :: nat

datatype io = Search string int | Do Request | ReadAll nat | Close nat

text \<open>One hit of the search provider, and the element type \<^verbatim>\<open>result\<close> local to webSearch.\<close>

record ddg_result =
  ddg_Title :: string
  ddg_Link :: string
  ddg_Description :: string

record result =
  Title :: string
  Link :: string
  Snippet :: string

text \<open>
  \<^verbatim>\<open>time.Time\<close> as the program reads it: the civil date and clock, the nanosecond within
  the second and the zone offset in seconds east of UTC.
\<close>

record Time =
  year :: int
  month :: nat
  day :: nat
  hour :: nat
  minute :: nat
  second :: nat
  nanosecond :: nat
  zoneOffset :: int

text \<open>
  \<open>json_Unmarshal w data field v\<close> decodes \<open>data\<close> into a struct whose one string field is
  named \<open>field\<close> and holds \<open>v\<close> before the call; it gives the field afterwards and the error.
  \<open>http_NewRequest\<close> gives the request pointer and the error.
\<close>

record world =
  time_Now :: Time
  json_Unmarshal :: "string \<Rightarrow> string \<Rightarrow> string \<Rightarrow> string \<times> go_error option"
  web_Search :: "string \<Rightarrow> int \<Rightarrow> go_error + ddg_result list"
  json_Marshal :: "result list \<Rightarrow> string \<times> go_error option"
  http_NewRequest :: "string \<Rightarrow> string \<Rightarrow> Request option \<times> go_error option"
  client_Do :: "Request \<Rightarrow> go_error + Response"
  io_ReadAll :: "nat \<Rightarrow> string \<times> go_error option"

subsection \<open>\<^verbatim>\<open>time.Time.Format(time.RFC3339)\<close>\<close>

text \<open>
  The layout \<^verbatim>\<open>time.RFC3339\<close> is \<^verbatim>\<open>2006-01-02T15:04:05Z07:00\<close>: no fraction of a second.
  \<open>appendInt\<close> writes a number in decimal, padded with zeros to a width, as the function of
  that name in package time does.
\<close>

definition digit :: "nat \<Rightarrow> char" where
  "digit d = char_of (48 + d)"

fun decimal :: "nat \<Rightarrow> string" where
  "decimal n = (if n < 10 then [digit n] else decimal (n div 10) @ [digit (n mod 10)])"

declare decimal.simps [simp del]

definition appendInt :: "int \<Rightarrow> nat \<Rightarrow> string" where
  "appendInt x width =
     (let u = nat \<bar>x\<bar>; ds = decimal u
      in (if x < 0 then ''-'' else []) @ replicate (width - length ds) (CHR ''0'') @ ds)"

text \<open>Go's integer division truncates towards zero.\<close>

definition go_div :: "int \<Rightarrow> int \<Rightarrow> int" where
  "go_div a b = sgn a * sgn b * (\<bar>a\<bar> div \<bar>b\<bar>)"

definition Format_RFC3339 :: "Time \<Rightarrow> string" where
  "Format_RFC3339 t =
     appendInt (year t) 4 @ ''-'' @ appendInt (int (month t)) 2 @ ''-'' @
     appendInt (int (day t)) 2 @ ''T'' @ appendInt (int (hour t)) 2 @ '':'' @
     appendInt (int (minute t)) 2 @ '':'' @ appendInt (int (second t)) 2 @
     (if zoneOffset t = 0 then ''Z''
      else (let zone = go_div (zoneOffset t) 60
            in (if zone < 0 then ''-'' else ''+'') @
               appendInt (\<bar>zone\<bar> div 60) 2 @ '':'' @ appendInt (\<bar>zone\<bar> mod 60) 2))"

subsection \<open>Reading an RFC 3339 timestamp back\<close>

text \<open>
  The reader of package time for this layout: fixed columns for the date and the clock, each
  number checked against its range, an optional fraction of a second, then \<^verbatim>\<open>Z\<close> or a
  signed \<^verbatim>\<open>hh:mm\<close> offset.
\<close>

definition isDigit :: "char \<Rightarrow> bool" where
  "isDigit c = (48 \<le> (of_char c :: nat) \<and> (of_char c :: nat) \<le> 57)"

definition parseUint :: "string \<Rightarrow> nat \<Rightarrow> nat \<Rightarrow> nat option" where
  "parseUint s lo hi =
     (if list_all isDigit s
      then (let x = foldl (\<lambda>x c. x * 10 + (of_char c - 48)) 0 s
            in if x < lo \<or> hi < x then None else Some x)
      else None)"

definition isLeap :: "nat \<Rightarrow> bool" where
  "isLeap y = (y mod 4 = 0 \<and> (y mod 100 \<noteq> 0 \<or> y mod 400 = 0))"

definition daysIn :: "nat \<Rightarrow> nat \<Rightarrow> nat" where
  "daysIn m y =
     (if m = 2 then (if isLeap y then 29 else 28)
      else if m = 4 \<or> m = 6 \<or> m = 9 \<or> m = 11 then 30 else 31)"

text \<open>Up to nine digits after the point count, scaled to nanoseconds.\<close>

definition parseNanoseconds :: "string \<Rightarrow> nat" where
  "parseNanoseconds ds =
     (let ds9 = take 9 ds
      in foldl (\<lambda>x c. x * 10 + (of_char c - 48)) 0 ds9 * 10 ^ (9 - length ds9))"

definition parseZone :: "string \<Rightarrow> int option" where
  "parseZone s =
     (if s = ''Z'' then Some 0
      else if length s \<noteq> 6 then None
      else do {
        hr \<leftarrow> parseUint (take 2 (drop 1 s)) 0 23;
        mm \<leftarrow> parseUint (take 2 (drop 4 s)) 0 59;
        if (s ! 0 = CHR ''-'' \<or> s ! 0 = CHR ''+'') \<and> s ! 3 = CHR '':''
        then Some ((if s ! 0 = CHR ''-'' then -1 else 1) * ((int hr * 60 + int mm) * 60))
        else None
      })"

definition Parse_RFC3339 :: "string \<Rightarrow> Time option" where
  "Parse_RFC3339 s =
     (if length s < 19 then None
      else do {
        y \<leftarrow> parseUint (take 4 s) 0 9999;
        mo \<leftarrow> parseUint (take 2 (drop 5 s)) 1 12;
        d \<leftarrow> parseUint (take 2 (drop 8 s)) 1 (daysIn mo y);
        h \<leftarrow> parseUint (take 2 (drop 11 s)) 0 23;
        mi \<leftarrow> parseUint (take 2 (drop 14 s)) 0 59;
        sec \<leftarrow> parseUint (take 2 (drop 17 s)) 0 59;
        if s ! 4 = CHR ''-'' \<and> s ! 7 = CHR ''-'' \<and> s ! 10 = CHR ''T'' \<and>
           s ! 13 = CHR '':'' \<and> s ! 16 = CHR '':''
        then (let r = drop 19 s;
                  frac = (if 2 \<le> length r \<and> r ! 0 = CHR ''.'' \<and> isDigit (r ! 1)
                          then takeWhile isDigit (drop 1 r) else []);
                  nsec = (if frac = [] then 0 else parseNanoseconds frac);
                  z = (if frac = [] then r else drop (1 + length frac) r)
              in do {
                off \<leftarrow> parseZone z;
                Some \<lparr>year = int y, month = mo, day = d, hour = h, minute = mi,
                      second = sec, nanosecond = nsec, zoneOffset = off\<rparr>
              })
        else None
      })"

text \<open>The readings of the clock that \<^verbatim>\<open>time.Now()\<close> can give in the years 0 to 9999.\<close>

definition civil :: "Time \<Rightarrow> bool" where
  "civil t =
     (0 \<le> year t \<and> year t \<le> 9999 \<and> 1 \<le> month t \<and> month t \<le> 12 \<and>
      1 \<le> day t \<and> day t \<le> daysIn (month t) (nat (year t)) \<and>
      hour t \<le> 23 \<and> minute t \<le> 59 \<and> second t \<le> 59 \<and>
      nanosecond t < 1000000000 \<and>
      zoneOffset t mod 60 = 0 \<and> \<bar>zoneOffset t\<bar> < 86400)"

subsection \<open>The handlers\<close>

definition currentTime_Function :: "world \<Rightarrow> string \<Rightarrow> io list \<times> outcome" where
  "currentTime_Function w args = ([], Returned (Format_RFC3339 (time_Now w)))"

definition webSearch_Function :: "world \<Rightarrow> string \<Rightarrow> io list \<times> outcome" where
  "webSearch_Function w args =
     (case json_Unmarshal w args ''Keyword'' [] of
        (_, Some err) \<Rightarrow> ([], Returned (Sprintf_v err))
      | (Keyword, None) \<Rightarrow>
          (case web_Search w Keyword 10 of
             Inl err \<Rightarrow> ([Search Keyword 10], Returned (Sprintf_v err))
           | Inr res \<Rightarrow>
               (let results = foldl (\<lambda>results ddgor. results @
                        [\<lparr>Title = ddg_Title ddgor, Link = ddg_Link ddgor,
                          Snippet = ddg_Description ddgor\<rparr>]) [] res;
                    v = fst (json_Marshal w results)
                in ([Search Keyword 10], Returned v))))"

text \<open>
  WebReader drops the error of \<^verbatim>\<open>http.NewRequest\<close> (\<^verbatim>\<open>req, _ := ...\<close>) and then writes
  \<^verbatim>\<open>req.Header\<close>: with a nil \<^verbatim>\<open>req\<close> that is a nil pointer dereference. The two copies of
  the handler differ in the User-Agent text only.
\<close>

definition WebReader_with :: "string \<Rightarrow> world \<Rightarrow> string \<Rightarrow> io list \<times> outcome" where
  "WebReader_with userAgent w args =
     (case json_Unmarshal w args ''Url'' [] of
        (_, Some err) \<Rightarrow> ([], Returned (Sprintf_v err))
      | (Url, None) \<Rightarrow>
          (case fst (http_NewRequest w ''GET'' Url) of
             None \<Rightarrow> ([], Panicked ''invalid memory address or nil pointer dereference'')
           | Some req0 \<Rightarrow>
               (let req = req0\<lparr>Header := (Header req0)(''User-Agent'' \<mapsto> userAgent)\<rparr>
                in case client_Do w req of
                     Inl err \<Rightarrow> ([Do req], Returned (Sprintf_v err))
                   | Inr resp \<Rightarrow>
                       (case io_ReadAll w (Body resp) of
                          (_, Some err) \<Rightarrow>
                            ([Do req, ReadAll (Body resp), Close (Body resp)],
                             Returned (Sprintf_v err))
                        | (bodyBytes, None) \<Rightarrow>
                            ([Do req, ReadAll (Body resp), Close (Body resp)],
                             Returned bodyBytes)))))"

definition WebReader_Function :: "world \<Rightarrow> string \<Rightarrow> io list \<times> outcome" where
  "WebReader_Function =
     WebReader_with ''Mozilla/5.0 (Macintosh; Intel Mac OS X 10_15_7) AppleWebKit/537.36 (KHTML, like Gecko) Chrome/142.0.0.0 Safari/537.36''"

definition WebReader_Function_001 :: "world \<Rightarrow> string \<Rightarrow> io list \<times> outcome" where
  "WebReader_Function_001 =
     WebReader_with ''Mozilla/5.0 (Windows NT 10.0; Win64; x64) AppleWebKit/537.36''"

subsection \<open>The registry\<close>

text \<open>\<^verbatim>\<open>map[string]any\<close> values of the parameter schemas.\<close>

datatype any = Str string | Strs "string list" | Dict "(string \<times> any) list"

record Tool =
  Name :: string
  Description :: string
  Parameters :: "any option"
  Function :: "world \<Rightarrow> string \<Rightarrow> io list \<times> outcome"

definition keyword_schema :: any where
  "keyword_schema = Dict
     [(''type'', Str ''object''),
      (''properties'', Dict [(''keyword'', Dict [(''type'', Str ''string''),
          (''description'', Str ''web search keyword.'')])]),
      (''required'', Strs [''keyword''])]"

definition url_schema :: any where
  "url_schema = Dict
     [(''type'', Str ''object''),
      (''properties'', Dict [(''url'', Dict [(''type'', Str ''string''),
          (''description'', Str ''URL of the page to retrieve'')])]),
      (''required'', Strs [''url''])]"

definition Tools :: "Tool list" where
  "Tools =
     [\<lparr>Name = ''currentTime'',
       Description = ''Get the current date and time with timezone in a human-readable format.'',
       Parameters = None,
       Function = currentTime_Function\<rparr>,
      \<lparr>Name = ''webSearch'',
       Description = ''Get the current date and time with timezone in a human-readable format.'',
       Parameters = Some keyword_schema,
       Function = webSearch_Function\<rparr>,
      \<lparr>Name = ''WebReader'',
       Description = ''Reads and returns the content from the specified URL'',
       Parameters = Some url_schema,
       Function = WebReader_Function\<rparr>]"

definition tools_001 :: "Tool list" where
  "tools_001 =
     [\<lparr>Name = ''currentTime'',
       Description = ''Get the current date and time with timezone in a human-readable format.'',
       Parameters = None,
       Function = currentTime_Function\<rparr>,
      \<lparr>Name = ''webSearch'',
       Description = ''Get the current date and time with timezone in a human-readable format.'',
       Parameters = Some keyword_schema,
       Function = webSearch_Function\<rparr>,
      \<lparr>Name = ''WebReader'',
       Description = ''Reads and returns the content from the specified URL'',
       Parameters = Some url_schema,
       Function = WebReader_Function_001\<rparr>]"

text \<open>The agent selects a tool by its name.\<close>

definition lookup_tool :: "Tool list \<Rightarrow> string \<Rightarrow> Tool option" where
  "lookup_tool ts n = find (\<lambda>t. Name t = n) ts"

section \<open>The chat view (the program file and its older copy)\<close>

text \<open>
  The view is a bubbletea model: \<^verbatim>\<open>Update\<close> receives one message and returns the next
  model and a command. The widgets (textarea, viewport), the styling package lipgloss and
  the runtime are outside the repository. A widget is a record of what the program reads
  or writes of it plus a number standing for the rest of its state; the library functions
  whose result the program cannot see into are the fields of the record \<open>ui\<close>.
\<close>

datatype border = NormalBorder

record Style =
  Background :: "string option"
  Foreground :: "string option"
  StyleWidth :: "int option"
  BorderStyle :: "border option"
  BorderBottom :: bool
  BorderForeground :: "string option"
  PaddingTop :: int
  PaddingLeft :: int
  PaddingRight :: int

definition NewStyle :: Style where
  "NewStyle = \<lparr>Background = None, Foreground = None, StyleWidth = None, BorderStyle = None,
     BorderBottom = False, BorderForeground = None, PaddingTop = 0, PaddingLeft = 0,
     PaddingRight = 0\<rparr>"

record textarea =
  Value :: string
  Placeholder :: string
  focused :: bool
  Prompt :: string
  CharLimit :: int
  ta_width :: int
  ta_height :: int
  CursorLine :: Style
  ShowLineNumbers :: bool
  InsertNewline_enabled :: bool
  ta_rest :: nat

record viewport =
  Width :: int
  Height :: int
  content :: string
  vp_rest :: nat

datatype cmd = Nil | Quit | Blink | LibCmd nat | Batch "cmd list"

datatype KeyType = KeyCtrlJ | KeyCtrlC | KeyEsc | KeyEnter | KeyRunes | KeyOther nat

datatype msg =
    WindowSizeMsg int int
  | answerMessage string
  | reasoningMessage string
  | functionCallMessage string
  | KeyMsg KeyType string
  | errMsg go_error
  | OtherMsg nat

record ui =
  textarea_Update :: "msg \<Rightarrow> textarea \<Rightarrow> textarea \<times> cmd"
  textarea_InsertString :: "string \<Rightarrow> textarea \<Rightarrow> textarea"
  textarea_SetWidth :: "int \<Rightarrow> textarea \<Rightarrow> textarea"
  viewport_Update :: "msg \<Rightarrow> viewport \<Rightarrow> viewport \<times> cmd"
  viewport_bottom :: "viewport \<Rightarrow> nat"
  viewport_rescroll :: "string \<Rightarrow> viewport \<Rightarrow> nat"
  Render :: "Style \<Rightarrow> string \<Rightarrow> string"

text \<open>\<^verbatim>\<open>textarea.New()\<close>: an empty box. \<^verbatim>\<open>Reset()\<close> empties the box again.\<close>

definition textarea_New :: textarea where
  "textarea_New = \<lparr>Value = [], Placeholder = [], focused = False, Prompt = [],
     CharLimit = 0, ta_width = 0, ta_height = 0, CursorLine = NewStyle,
     ShowLineNumbers = True, InsertNewline_enabled = True, ta_rest = 0\<rparr>"

definition textarea_Reset :: "textarea \<Rightarrow> textarea" where
  "textarea_Reset ta = ta\<lparr>Value := [], ta_rest := 0\<rparr>"

text \<open>
  \<^verbatim>\<open>viewport.New(w, h)\<close>, and \<^verbatim>\<open>SetContent\<close>: the text replaces the content, and the
  library may move the scroll position.
\<close>

definition viewport_New :: "int \<Rightarrow> int \<Rightarrow> viewport" where
  "viewport_New w h = \<lparr>Width = w, Height = h, content = [], vp_rest = 0\<rparr>"

definition viewport_SetContent :: "ui \<Rightarrow> string \<Rightarrow> viewport \<Rightarrow> viewport" where
  "viewport_SetContent L s vp = vp\<lparr>content := s, vp_rest := viewport_rescroll L s vp\<rparr>"

text \<open>\<^verbatim>\<open>GotoBottom\<close> moves the scroll position only.\<close>

definition viewport_GotoBottom :: "ui \<Rightarrow> viewport \<Rightarrow> viewport" where
  "viewport_GotoBottom L vp = vp\<lparr>vp_rest := viewport_bottom L vp\<rparr>"

text \<open>\<^verbatim>\<open>lipgloss.Height\<close> counts the lines of a text; \<^verbatim>\<open>strings.Join\<close>.\<close>

definition lipgloss_Height :: "string \<Rightarrow> int" where
  "lipgloss_Height str = int (length (filter (\<lambda>c. c = CHR ''\<newline>'') str)) + 1"

fun Join :: "string list \<Rightarrow> string \<Rightarrow> string" where
  "Join [] sep = []"
| "Join [x] sep = x"
| "Join (x # y # ys) sep = x @ sep @ Join (y # ys) sep"

definition gap :: string where
  "gap = ''\<newline>\<newline>''"

subsection \<open>The program file: one transcript entry per message\<close>

definition functionCallMessage_Content :: "ui \<Rightarrow> string \<Rightarrow> string" where
  "functionCallMessage_Content L message =
     Render L (NewStyle\<lparr>Background := Some ''2''\<rparr>) '' Function Call '' @ '' '' @
     Render L (NewStyle\<lparr>Foreground := Some ''241''\<rparr>) message"

definition answerMessage_Content :: "ui \<Rightarrow> string \<Rightarrow> string" where
  "answerMessage_Content L message =
     Render L (NewStyle\<lparr>Background := Some ''2''\<rparr>) '' Agent '' @ '' '' @ message"

definition reasoningMessage_Content :: "ui \<Rightarrow> string \<Rightarrow> string" where
  "reasoningMessage_Content L message =
     Render L (NewStyle\<lparr>Background := Some ''2''\<rparr>) '' Reasoning '' @ '' '' @
     Render L (NewStyle\<lparr>Foreground := Some ''241''\<rparr>) message"

record model =
  viewport :: viewport
  messages :: "string list"
  textarea :: textarea
  err :: "go_error option"

text \<open>What \<^verbatim>\<open>Update\<close> does beside returning: a line on standard output, a goroutine
  started by \<^verbatim>\<open>ask\<close> with the question.\<close>

datatype effect = Println string | Ask string

text \<open>
  The goroutine itself: for the stream of results the agent yields for a question it sends
  one message per result of the three kinds it knows, in the order of the stream, and
  nothing for any other result. The error of \<^verbatim>\<open>agent.Ask\<close> is dropped. The agent is the
  parameter \<open>agent_Ask\<close>.
\<close>

datatype agent_result =
    MessageResult string
  | ReasoningResult string
  | FunctionCallResult string
  | OtherResult nat

definition ask :: "(string \<Rightarrow> agent_result list) \<Rightarrow> string \<Rightarrow> msg list" where
  "ask agent_Ask question =
     concat (map (\<lambda>r. case r of
                   MessageResult s \<Rightarrow> [answerMessage s]
                 | ReasoningResult s \<Rightarrow> [reasoningMessage s]
                 | FunctionCallResult s \<Rightarrow> [functionCallMessage s]
                 | OtherResult _ \<Rightarrow> [])
             (agent_Ask question))"

text \<open>
  The input box as \<^verbatim>\<open>initialModel\<close> sets it up, statement by statement. \<^verbatim>\<open>Focus()\<close>
  marks the box focused; \<^verbatim>\<open>SetHeight(3)\<close> is within the widget's bounds and is stored.
\<close>

definition initial_textarea :: "ui \<Rightarrow> textarea" where
  "initial_textarea L =
     (let ta = textarea_New;
          ta = ta\<lparr>Placeholder := ''Send a message...''\<rparr>;
          ta = ta\<lparr>focused := True\<rparr>;
          ta = ta\<lparr>Prompt := [CHR 0xE2, CHR 0x94, CHR 0x83, CHR '' '']\<rparr>;
          ta = ta\<lparr>CharLimit := 280\<rparr>;
          ta = textarea_SetWidth L 30 ta;
          ta = ta\<lparr>ta_height := 3\<rparr>;
          ta = ta\<lparr>CursorLine := NewStyle\<rparr>;
          ta = ta\<lparr>ShowLineNumbers := False\<rparr>;
          ta = ta\<lparr>InsertNewline_enabled := False\<rparr>
      in ta)"

definition welcome_text :: string where
  "welcome_text = ''Welcome to ore-no-agent!\<newline>Type a message and press Enter to send.''"

definition initialModel :: "ui \<Rightarrow> model" where
  "initialModel L =
     \<lparr>viewport = viewport_SetContent L welcome_text (viewport_New 30 5),
      messages = [],
      textarea = initial_textarea L,
      err = None\<rparr>"

definition Init :: cmd where
  "Init = Blink"

definition render :: "ui \<Rightarrow> 'a model_scheme \<Rightarrow> 'a model_scheme" where
  "render L m =
     (let s = foldl (\<lambda>s message. s @
                Render L (NewStyle\<lparr>BorderStyle := Some NormalBorder, BorderBottom := True,
                            BorderForeground := Some ''241'', PaddingTop := 1,
                            PaddingLeft := 1, PaddingRight := 1\<rparr>)
                  (Render L (NewStyle\<lparr>StyleWidth := Some (Width (viewport m))\<rparr>) message))
              [] (messages m)
      in m\<lparr>viewport := viewport_SetContent L s (viewport m)\<rparr>)"

definition Update :: "ui \<Rightarrow> model \<Rightarrow> msg \<Rightarrow> model \<times> cmd \<times> effect list" where
  "Update L m0 msg =
     (let (ta, tiCmd) = textarea_Update L msg (textarea m0);
          (vp, vpCmd) = viewport_Update L msg (viewport m0);
          m = m0\<lparr>textarea := ta, viewport := vp\<rparr>
      in case msg of
           WindowSizeMsg w h \<Rightarrow>
             (let m = m\<lparr>viewport := (viewport m)\<lparr>Width := w\<rparr>\<rparr>;
                  m = m\<lparr>textarea := textarea_SetWidth L w (textarea m)\<rparr>;
                  m = m\<lparr>viewport := (viewport m)
                        \<lparr>Height := h - ta_height (textarea m) - lipgloss_Height gap\<rparr>\<rparr>;
                  m = (if length (messages m) > 0 then render L m else m);
                  m = m\<lparr>viewport := viewport_GotoBottom L (viewport m)\<rparr>
              in (m, Batch [tiCmd, vpCmd], []))
         | answerMessage s \<Rightarrow>
             (let m = m\<lparr>messages := messages m @ [answerMessage_Content L s]\<rparr>;
                  m = render L m;
                  m = m\<lparr>viewport := viewport_GotoBottom L (viewport m)\<rparr>
              in (m, Nil, []))
         | reasoningMessage s \<Rightarrow>
             (let m = m\<lparr>messages := messages m @ [reasoningMessage_Content L s]\<rparr>;
                  m = render L m;
                  m = m\<lparr>viewport := viewport_GotoBottom L (viewport m)\<rparr>
              in (m, Nil, []))
         | functionCallMessage s \<Rightarrow>
             (let m = m\<lparr>messages := messages m @ [functionCallMessage_Content L s]\<rparr>;
                  m = render L m;
                  m = m\<lparr>viewport := viewport_GotoBottom L (viewport m)\<rparr>
              in (m, Nil, []))
         | KeyMsg ty runes \<Rightarrow>
             (case ty of
                KeyCtrlJ \<Rightarrow>
                  (m\<lparr>textarea := textarea_InsertString L ''\<newline>'' (textarea m)\<rparr>,
                   Batch [tiCmd, vpCmd], [])
              | KeyCtrlC \<Rightarrow> (m, Quit, [Println (Value (textarea m))])
              | KeyEsc \<Rightarrow> (m, Quit, [Println (Value (textarea m))])
              | KeyEnter \<Rightarrow>
                  (let message = Value (textarea m);
                       m = m\<lparr>messages := messages m @
                             [Render L (NewStyle\<lparr>Background := Some ''5''\<rparr>) '' You '' @
                              '' '' @ message]\<rparr>;
                       m = render L m;
                       m = m\<lparr>textarea := textarea_Reset (textarea m)\<rparr>;
                       m = m\<lparr>viewport := viewport_GotoBottom L (viewport m)\<rparr>
                   in (m, Batch [tiCmd, vpCmd], [Ask message]))
              | _ \<Rightarrow> (m, Batch [tiCmd, vpCmd], []))
         | errMsg e \<Rightarrow> (m\<lparr>err := Some e\<rparr>, Nil, [])
         | OtherMsg _ \<Rightarrow> (m, Batch [tiCmd, vpCmd], []))"

subsection \<open>The older copy: a label line and a text line per message\<close>

record model_001 = model +
  senderStyle :: Style
  agentStyle :: Style

text \<open>\<^verbatim>\<open>ask\<close> of this copy appends a newline to every text it forwards.\<close>

definition ask_001 :: "(string \<Rightarrow> agent_result list) \<Rightarrow> string \<Rightarrow> msg list" where
  "ask_001 agent_Ask question =
     concat (map (\<lambda>r. case r of
                   MessageResult s \<Rightarrow> [answerMessage (s @ ''\<newline>'')]
                 | ReasoningResult s \<Rightarrow> [reasoningMessage (s @ ''\<newline>'')]
                 | FunctionCallResult s \<Rightarrow> [functionCallMessage (s @ ''\<newline>'')]
                 | OtherResult _ \<Rightarrow> [])
             (agent_Ask question))"

definition initialModel_001 :: "ui \<Rightarrow> model_001" where
  "initialModel_001 L =
     \<lparr>viewport = viewport_SetContent L welcome_text (viewport_New 30 5),
      messages = [],
      textarea = initial_textarea L,
      err = None,
      senderStyle = NewStyle\<lparr>Background := Some ''5''\<rparr>,
      agentStyle = NewStyle\<lparr>Background := Some ''2''\<rparr>\<rparr>"

definition Update_001 :: "ui \<Rightarrow> model_001 \<Rightarrow> msg \<Rightarrow> model_001 \<times> cmd \<times> effect list" where
  "Update_001 L m0 msg =
     (let (ta, tiCmd) = textarea_Update L msg (textarea m0);
          (vp, vpCmd) = viewport_Update L msg (viewport m0);
          m = m0\<lparr>textarea := ta, viewport := vp\<rparr>
      in case msg of
           WindowSizeMsg w h \<Rightarrow>
             (let m = m\<lparr>viewport := (viewport m)\<lparr>Width := w\<rparr>\<rparr>;
                  m = m\<lparr>textarea := textarea_SetWidth L w (textarea m)\<rparr>;
                  m = m\<lparr>viewport := (viewport m)
                        \<lparr>Height := h - ta_height (textarea m) - lipgloss_Height gap\<rparr>\<rparr>;
                  m = (if length (messages m) > 0
                       then m\<lparr>viewport := viewport_SetContent L
                              (Render L (NewStyle\<lparr>StyleWidth := Some (Width (viewport m))\<rparr>)
                                 (Join (messages m) ''\<newline>'')) (viewport m)\<rparr>
                       else m);
                  m = m\<lparr>viewport := viewport_GotoBottom L (viewport m)\<rparr>
              in (m, Batch [tiCmd, vpCmd], []))
         | answerMessage s \<Rightarrow>
             (let m = m\<lparr>messages := messages m @ [Render L (agentStyle m) ''Agent'', s]\<rparr>;
                  m = m\<lparr>viewport := viewport_SetContent L
                         (Render L (NewStyle\<lparr>StyleWidth := Some (Width (viewport m))\<rparr>)
                            (Join (messages m) ''\<newline>'')) (viewport m)\<rparr>;
                  m = m\<lparr>viewport := viewport_GotoBottom L (viewport m)\<rparr>
              in (m, Nil, []))
         | reasoningMessage s \<Rightarrow>
             (let m = m\<lparr>messages := messages m @ [Render L (agentStyle m) ''Reasoning'', s]\<rparr>;
                  m = m\<lparr>viewport := viewport_SetContent L
                         (Render L (NewStyle\<lparr>StyleWidth := Some (Width (viewport m))\<rparr>)
                            (Join (messages m) ''\<newline>'')) (viewport m)\<rparr>;
                  m = m\<lparr>viewport := viewport_GotoBottom L (viewport m)\<rparr>
              in (m, Nil, []))
         | functionCallMessage s \<Rightarrow>
             (let m = m\<lparr>messages := messages m @
                        [Render L (agentStyle m) ''Function Call'', s]\<rparr>;
                  m = m\<lparr>viewport := viewport_SetContent L
                         (Render L (NewStyle\<lparr>StyleWidth := Some (Width (viewport m))\<rparr>)
                            (Join (messages m) ''\<newline>'')) (viewport m)\<rparr>;
                  m = m\<lparr>viewport := viewport_GotoBottom L (viewport m)\<rparr>
              in (m, Nil, []))
         | KeyMsg ty runes \<Rightarrow>
             (case ty of
                KeyCtrlJ \<Rightarrow>
                  (m\<lparr>textarea := textarea_InsertString L ''\<newline>'' (textarea m)\<rparr>,
                   Batch [tiCmd, vpCmd], [])
              | KeyCtrlC \<Rightarrow> (m, Quit, [Println (Value (textarea m))])
              | KeyEsc \<Rightarrow> (m, Quit, [Println (Value (textarea m))])
              | KeyEnter \<Rightarrow>
                  (let message = Value (textarea m) @ ''\<newline>'';
                       m = m\<lparr>messages := messages m @
                             [Render L (senderStyle m) ''You:'', message]\<rparr>;
                       m = m\<lparr>viewport := viewport_SetContent L
                              (Render L (NewStyle\<lparr>StyleWidth := Some (Width (viewport m))\<rparr>)
                                 (Join (messages m) ''\<newline>'')) (viewport m)\<rparr>;
                       m = m\<lparr>textarea := textarea_Reset (textarea m)\<rparr>;
                       m = m\<lparr>viewport := viewport_GotoBottom L (viewport m)\<rparr>
                   in (m, Batch [tiCmd, vpCmd], [Ask message]))
              | _ \<Rightarrow> (m, Batch [tiCmd, vpCmd], []))
         | errMsg e \<Rightarrow> (m\<lparr>err := Some e\<rparr>, Nil, [])
         | OtherMsg _ \<Rightarrow> (m, Batch [tiCmd, vpCmd], []))"

subsection \<open>Delivering a sequence of messages\<close>

text \<open>
  The runtime calls \<^verbatim>\<open>Update\<close> once per message, each time on the model the call before
  returned. \<open>deliver\<close> gives the last model and every effect on the way.
\<close>

fun deliver :: "ui \<Rightarrow> model \<Rightarrow> msg list \<Rightarrow> model \<times> effect list" where
  "deliver L m [] = (m, [])"
| "deliver L m (x # xs) =
     (case Update L m x of (m', c, es) \<Rightarrow>
        (case deliver L m' xs of (m'', es') \<Rightarrow> (m'', es @ es')))"

fun deliver_001 :: "ui \<Rightarrow> model_001 \<Rightarrow> msg list \<Rightarrow> model_001 \<times> effect list" where
  "deliver_001 L m [] = (m, [])"
| "deliver_001 L m (x # xs) =
     (case Update_001 L m x of (m', c, es) \<Rightarrow>
        (case deliver_001 L m' xs of (m'', es') \<Rightarrow> (m'', es @ es')))"

text \<open>A submission is the Enter key; an agent event is one of the three agent messages.\<close>

fun is_submission :: "msg \<Rightarrow> bool" where
  "is_submission (KeyMsg KeyEnter runes) = True"
| "is_submission _ = False"

fun is_agent_event :: "msg \<Rightarrow> bool" where
  "is_agent_event (answerMessage s) = True"
| "is_agent_event (reasoningMessage s) = True"
| "is_agent_event (functionCallMessage s) = True"
| "is_agent_event _ = False"

text \<open>Changing the width of the viewport, as the resize branch does before it renders.\<close>

definition with_Width :: "int \<Rightarrow> 'a model_scheme \<Rightarrow> 'a model_scheme" where
  "with_Width w m = m\<lparr>viewport := (viewport m)\<lparr>Width := w\<rparr>\<rparr>"

section \<open>A concrete world and a concrete terminal, for the examples\<close>

text \<open>
  The decoder of \<open>sample_world\<close> answers as \<^verbatim>\<open>encoding/json\<close> does on the three inputs
  the examples use, and rejects every other input; its \<^verbatim>\<open>http.NewRequest\<close> rejects the
  URL \<^verbatim>\<open>:\<close> (no protocol scheme), as \<^verbatim>\<open>net/http\<close> does.
\<close>

definition sample_Unmarshal :: "string \<Rightarrow> string \<Rightarrow> string \<Rightarrow> string \<times> go_error option" where
  "sample_Unmarshal data field v =
     (if data = ''{'' then (v, Some (GoError ''unexpected end of JSON input''))
      else if data = ''{}'' then (v, None)
      else if data = ''{\"url\":\":\"}'' then (if field = ''Url'' then '':'' else v, None)
      else (v, Some (GoError ''invalid character'')))"

definition sample_NewRequest :: "string \<Rightarrow> string \<Rightarrow> Request option \<times> go_error option" where
  "sample_NewRequest method url =
     (if url = '':'' then (None, Some (GoError ''parse \":\": missing protocol scheme''))
      else (Some \<lparr>Method = method, URL = url, Header = Map.empty\<rparr>, None))"

definition sample_Time :: Time where
  "sample_Time = \<lparr>year = 2026, month = 10, day = 31, hour = 12, minute = 0, second = 7,
     nanosecond = 500000000, zoneOffset = 32400\<rparr>"

definition sample_world :: world where
  "sample_world =
     \<lparr>time_Now = sample_Time,
      json_Unmarshal = sample_Unmarshal,
      web_Search = (\<lambda>keyword n. Inr []),
      json_Marshal = (\<lambda>rs. (if rs = [] then ''[]'' else ''[...]'', None)),
      http_NewRequest = sample_NewRequest,
      client_Do = (\<lambda>req. Inr \<lparr>StatusCode = 200, Body = 0\<rparr>),
      io_ReadAll = (\<lambda>b. (''hello'', None))\<rparr>"

text \<open>
  A terminal without colours: rendering leaves the text as it is; typed runes and inserted
  strings go to the end of the box, cut at the limit.
\<close>

definition plain_insert :: "string \<Rightarrow> textarea \<Rightarrow> textarea" where
  "plain_insert s ta =
     (if 0 < CharLimit ta
      then ta\<lparr>Value := Value ta @ take (nat (CharLimit ta) - length (Value ta)) s\<rparr>
      else ta\<lparr>Value := Value ta @ s\<rparr>)"

definition plain_ui :: ui where
  "plain_ui =
     \<lparr>textarea_Update = (\<lambda>msg ta.
         (case msg of KeyMsg KeyRunes runes \<Rightarrow> plain_insert runes ta | _ \<Rightarrow> ta, Nil)),
      textarea_InsertString = plain_insert,
      textarea_SetWidth = (\<lambda>w ta. ta\<lparr>ta_width := w\<rparr>),
      viewport_Update = (\<lambda>msg vp. (vp, Nil)),
      viewport_bottom = (\<lambda>vp. 0),
      viewport_rescroll = (\<lambda>s vp. vp_rest vp),
      Render = (\<lambda>st s. s)\<rparr>"

text \<open>
  A box that holds \<^verbatim>\<open>hi\<close>, in both copies of the program, and a short session: the
  user types \<^verbatim>\<open>hi\<close>, presses Enter, and the agent answers \<^verbatim>\<open>yo\<close>.
\<close>

definition typed_hi :: model where
  "typed_hi =
     (initialModel plain_ui)\<lparr>textarea := (initial_textarea plain_ui)\<lparr>Value := ''hi''\<rparr>\<rparr>"

definition typed_hi_001 :: model_001 where
  "typed_hi_001 =
     (initialModel_001 plain_ui)\<lparr>textarea := (initial_textarea plain_ui)\<lparr>Value := ''hi''\<rparr>\<rparr>"

definition sample_run :: "msg list" where
  "sample_run = [KeyMsg KeyRunes ''hi'', KeyMsg KeyEnter [], answerMessage ''yo'']"

text \<open>The two models at the end of that session.\<close>

definition after_run :: model where
  "after_run = fst (deliver plain_ui (initialModel plain_ui) sample_run)"

definition after_run_001 :: model_001 where
  "after_run_001 = fst (deliver_001 plain_ui (initialModel_001 plain_ui) sample_run)"

section \<open>Properties of the tool registry\<close>

subsection \<open>Decimal fields are read back as written\<close>

lemma of_char_digit: "n < 10 \<Longrightarrow> (of_char (digit n) :: nat) = 48 + n"
  by (simp add: digit_def)

lemma isDigit_digit: "n < 10 \<Longrightarrow> isDigit (digit n)"
  by (simp add: isDigit_def of_char_digit)

lemma decimal_all_digits: "list_all isDigit (decimal n)"
proof (induction n rule: decimal.induct)
  case (1 n)
  show ?case
  proof (cases "n < 10")
    case True
    then show ?thesis by (subst decimal.simps) (simp add: isDigit_digit)
  next
    case False
    then have "list_all isDigit (decimal (n div 10))" using 1 by simp
    moreover have "isDigit (digit (n mod 10))" by (simp add: isDigit_digit)
    ultimately show ?thesis using False by (subst decimal.simps) simp
  qed
qed

lemma decimal_value: "foldl (\<lambda>x c. x * 10 + (of_char c - 48)) 0 (decimal n) = n"
proof (induction n rule: decimal.induct)
  case (1 n)
  show ?case
  proof (cases "n < 10")
    case True
    then show ?thesis by (subst decimal.simps) (simp add: of_char_digit)
  next
    case False
    then have "foldl (\<lambda>x c. x * 10 + (of_char c - 48)) 0 (decimal (n div 10)) = n div 10"
      using 1 by simp
    then show ?thesis using False
      by (subst decimal.simps) (simp add: of_char_digit)
  qed
qed

lemma decimal_length: "0 < k \<Longrightarrow> n < 10 ^ k \<Longrightarrow> length (decimal n) \<le> k"
proof (induction n arbitrary: k rule: decimal.induct)
  case (1 n)
  show ?case
  proof (cases "n < 10")
    case True
    then show ?thesis using 1(2) by (subst decimal.simps) simp
  next
    case False
    obtain j where k: "k = Suc j" using 1(2) by (cases k) auto
    have j: "0 < j"
    proof (rule ccontr)
      assume "\<not> 0 < j"
      then have "k = 1" using k by simp
      then show False using 1(3) False by simp
    qed
    have "n < 10 * 10 ^ j" using 1(3) k by simp
    then have "n div 10 < 10 ^ j" by (simp add: less_mult_imp_div_less mult.commute)
    then have "length (decimal (n div 10)) \<le> j" using 1(1)[OF False j] by simp
    then show ?thesis using False k by (subst decimal.simps) simp
  qed
qed

lemma zeros_value:
  "foldl (\<lambda>x c. x * 10 + (of_char c - 48)) (0::nat) (replicate k (CHR ''0'')) = 0"
  by (induction k) simp_all

lemma zeros_all_digits: "list_all isDigit (replicate k (CHR ''0''))"
  by (induction k) (simp_all add: isDigit_def)

lemma appendInt_length: "0 < k \<Longrightarrow> n < 10 ^ k \<Longrightarrow> length (appendInt (int n) k) = k"
  using decimal_length[of k n] by (simp add: appendInt_def Let_def)

lemma appendInt_parse:
  "lo \<le> n \<Longrightarrow> n \<le> hi \<Longrightarrow> parseUint (appendInt (int n) k) lo hi = Some n"
  by (simp add: parseUint_def appendInt_def Let_def zeros_value decimal_value
      decimal_all_digits zeros_all_digits)

lemma go_div_exact: "a mod 60 = 0 \<Longrightarrow> go_div a 60 = a div 60"
  by (cases "a < 0") (auto simp: go_div_def sgn_if zdiv_zminus1_eq_if)

lemma parseZone_Z: "parseZone ''Z'' = Some 0"
  by (simp add: parseZone_def)

lemma parseZone_offset:
  assumes "hh \<le> 23" "mm \<le> 59"
  shows "parseZone ((if neg then ''-'' else ''+'') @ appendInt (int hh) 2 @ '':'' @ appendInt (int mm) 2)
    = Some ((if neg then -1 else 1) * ((int hh * 60 + int mm) * 60))"
proof -
  have l1: "length (appendInt (int hh) 2) = 2" using assms by (intro appendInt_length) simp_all
  have l2: "length (appendInt (int mm) 2) = 2" using assms by (intro appendInt_length) simp_all
  have p1: "parseUint (appendInt (int hh) 2) 0 23 = Some hh" using assms by (intro appendInt_parse) simp_all
  have p2: "parseUint (appendInt (int mm) 2) 0 59 = Some mm" using assms by (intro appendInt_parse) simp_all
  show ?thesis
    by (cases neg) (simp_all add: parseZone_def l1 l2 p1 p2 nth_append)
qed


lemma Parse_shape:
  assumes "length a = 4" "length b = 2" "length c = 2"
    and "length d = 2" "length e = 2" "length f = 2"
    and "parseUint a 0 9999 = Some y" "parseUint b 1 12 = Some mo"
    and "parseUint c 1 (daysIn mo y) = Some dd" "parseUint d 0 23 = Some h"
    and "parseUint e 0 59 = Some mi" "parseUint f 0 59 = Some sec"
    and "z ! 0 \<noteq> CHR ''.''"
  shows "Parse_RFC3339 (a @ ''-'' @ b @ ''-'' @ c @ ''T'' @ d @ '':'' @ e @ '':'' @ f @ z) =
    (case parseZone z of None \<Rightarrow> None
     | Some off \<Rightarrow> Some \<lparr>year = int y, month = mo, day = dd, hour = h, minute = mi,
         second = sec, nanosecond = 0, zoneOffset = off\<rparr>)"
  using assms
  by (simp add: Parse_RFC3339_def nth_append Let_def split: option.splits)


lemma zone_bound: "(ofs::int) mod 60 = 0 \<Longrightarrow> \<bar>ofs\<bar> < 86400 \<Longrightarrow> nat \<bar>ofs div 60\<bar> < 1440"
  by (auto simp: abs_if split: if_splits)

lemma zone_sign: "(ofs::int) mod 60 = 0 \<Longrightarrow> ofs \<noteq> 0 \<Longrightarrow> (ofs div 60 < 0) = (ofs < 0)"
  by auto

lemma zone_rebuild:
  assumes "(ofs::int) mod 60 = 0" and "q = nat \<bar>ofs div 60\<bar>"
  shows "(if ofs < 0 then -1 else 1) * ((int (q div 60) * 60 + int (q mod 60)) * 60) = ofs"
proof -
  have "int (q div 60) * 60 + int (q mod 60) = int q"
    by (metis mult.commute of_nat_add of_nat_mult of_nat_numeral mult_div_mod_eq)
  moreover have "int q = \<bar>ofs div 60\<bar>" using assms(2) by simp
  moreover have "ofs div 60 * 60 = ofs" using assms(1) by auto
  ultimately show ?thesis by (auto simp: abs_if split: if_splits)
qed

lemma zone_text:
  assumes "(ofs::int) mod 60 = 0" and "ofs \<noteq> 0" and "q = nat \<bar>ofs div 60\<bar>"
  shows "(let zone = go_div ofs 60
            in (if zone < 0 then ''-'' else ''+'') @
               appendInt (\<bar>zone\<bar> div 60) 2 @ '':'' @ appendInt (\<bar>zone\<bar> mod 60) 2) =
         (if ofs < 0 then ''-'' else ''+'') @ appendInt (int (q div 60)) 2 @ '':'' @
            appendInt (int (q mod 60)) 2"
proof -
  have zone: "go_div ofs 60 = ofs div 60" using assms(1) by (rule go_div_exact)
  have q: "\<bar>ofs div 60\<bar> = int q" using assms(3) by simp
  have d: "int q div 60 = int (q div 60)" "int q mod 60 = int (q mod 60)"
    by (simp_all add: zdiv_int zmod_int)
  show ?thesis
    unfolding Let_def zone q d zone_sign[OF assms(1,2)] by (rule refl)
qed

lemma Format_round_trip:
  assumes "civil t"
  shows "Parse_RFC3339 (Format_RFC3339 t) = Some (t\<lparr>nanosecond := 0\<rparr>)"
proof -
  define y where "y = nat (year t)"
  have y: "year t = int y" "y \<le> 9999" using assms by (auto simp: civil_def y_def)
  have r: "1 \<le> month t" "month t \<le> 12" "1 \<le> day t" "day t \<le> daysIn (month t) y"
    "hour t \<le> 23" "minute t \<le> 59" "second t \<le> 59"
    using assms by (simp_all add: civil_def y_def)
  have d31: "day t \<le> 31" using r(4) by (simp add: daysIn_def split: if_splits)
  have la: "length (appendInt (int y) 4) = 4" using y by (intro appendInt_length) simp_all
  have lb: "length (appendInt (int (month t)) 2) = 2" using r by (intro appendInt_length) simp_all
  have lc: "length (appendInt (int (day t)) 2) = 2" using d31 by (intro appendInt_length) simp_all
  have ld: "length (appendInt (int (hour t)) 2) = 2" using r by (intro appendInt_length) simp_all
  have le: "length (appendInt (int (minute t)) 2) = 2" using r by (intro appendInt_length) simp_all
  have lf: "length (appendInt (int (second t)) 2) = 2" using r by (intro appendInt_length) simp_all
  have pa: "parseUint (appendInt (int y) 4) 0 9999 = Some y" using y by (intro appendInt_parse) simp_all
  have pb: "parseUint (appendInt (int (month t)) 2) 1 12 = Some (month t)"
    using r by (intro appendInt_parse) simp_all
  have pc: "parseUint (appendInt (int (day t)) 2) 1 (daysIn (month t) y) = Some (day t)"
    using r by (intro appendInt_parse) simp_all
  have pd: "parseUint (appendInt (int (hour t)) 2) 0 23 = Some (hour t)"
    using r by (intro appendInt_parse) simp_all
  have pe: "parseUint (appendInt (int (minute t)) 2) 0 59 = Some (minute t)"
    using r by (intro appendInt_parse) simp_all
  have pf: "parseUint (appendInt (int (second t)) 2) 0 59 = Some (second t)"
    using r by (intro appendInt_parse) simp_all
  define z where "z = (if zoneOffset t = 0 then ''Z''
      else (let zone = go_div (zoneOffset t) 60
            in (if zone < 0 then ''-'' else ''+'') @
               appendInt (\<bar>zone\<bar> div 60) 2 @ '':'' @ appendInt (\<bar>zone\<bar> mod 60) 2))"
  have F: "Format_RFC3339 t = appendInt (int y) 4 @ ''-'' @ appendInt (int (month t)) 2 @ ''-'' @
     appendInt (int (day t)) 2 @ ''T'' @ appendInt (int (hour t)) 2 @ '':'' @
     appendInt (int (minute t)) 2 @ '':'' @ appendInt (int (second t)) 2 @ z"
    by (simp add: Format_RFC3339_def z_def y)
  have z0: "z ! 0 \<noteq> CHR ''.''" by (simp add: z_def Let_def)
  have pz: "parseZone z = Some (zoneOffset t)"
  proof (cases "zoneOffset t = 0")
    case True
    then show ?thesis by (simp add: z_def parseZone_Z)
  next
    case False
    define ofs where "ofs = zoneOffset t"
    have ofs: "ofs mod 60 = 0" "\<bar>ofs\<bar> < 86400" "ofs \<noteq> 0"
      using assms False by (simp_all add: civil_def ofs_def)
    define q where "q = nat \<bar>ofs div 60\<bar>"
    have qb: "q < 1440" unfolding q_def using ofs(1,2) by (rule zone_bound)
    have "z = (if ofs < 0 then ''-'' else ''+'') @ appendInt (int (q div 60)) 2 @ '':'' @
        appendInt (int (q mod 60)) 2"
      using False zone_text[OF ofs(1) ofs(3) q_def] by (simp add: z_def ofs_def)
    moreover have "q div 60 \<le> 23" "q mod 60 \<le> 59" using qb by simp_all
    ultimately show ?thesis
      using parseZone_offset[of "q div 60" "q mod 60" "ofs < 0"] zone_rebuild[OF ofs(1) q_def]
      by (simp add: ofs_def)
  qed
  have "Parse_RFC3339 (Format_RFC3339 t) = Some \<lparr>year = int y, month = month t, day = day t,
      hour = hour t, minute = minute t, second = second t, nanosecond = 0,
      zoneOffset = zoneOffset t\<rparr>"
    unfolding F using Parse_shape[OF la lb lc ld le lf pa pb pc pd pe pf z0] by (simp add: pz)
  then show ?thesis by (simp add: y)
qed


subsection \<open>The descriptions\<close>

text \<open>
  Claim C10. The tool registered under the name \<^verbatim>\<open>webSearch\<close> carries the description
  ``Get the current date and time with timezone in a human-readable format.'', in
  \<^verbatim>\<open>tool.go\<close> and in the older copy alike. It is, letter for letter, the description of
  \<^verbatim>\<open>currentTime\<close>.
\<close>

theorem webSearch_Description:
  "map_option Description (lookup_tool Tools ''webSearch'') =
     Some ''Get the current date and time with timezone in a human-readable format.'' \<and>
   map_option Description (lookup_tool tools_001 ''webSearch'') =
     Some ''Get the current date and time with timezone in a human-readable format.'' \<and>
   map_option Description (lookup_tool Tools ''webSearch'') =
     map_option Description (lookup_tool Tools ''currentTime'') \<and>
   map_option Description (lookup_tool tools_001 ''webSearch'') =
     map_option Description (lookup_tool tools_001 ''currentTime'')"
  by (simp add: lookup_tool_def Tools_def tools_001_def)

subsection \<open>webSearch\<close>

text \<open>
  Claim C4. When the decoder rejects the argument string, webSearch returns the text of the
  decoder's error and has issued no outbound call: the search provider is not reached. The
  returned string is not empty as long as the decoder's message is not; the messages of
  \<^verbatim>\<open>encoding/json\<close> are not (for \<^verbatim>\<open>{\<close> it is ``unexpected end of JSON input'').
\<close>

theorem webSearch_malformed_args:
  assumes "json_Unmarshal w args ''Keyword'' [] = (k, Some e)" and "Error e \<noteq> []"
  shows "webSearch_Function w args = ([], Returned (Error e)) \<and>
         snd (webSearch_Function w args) \<noteq> Returned []"
  using assms by (simp add: webSearch_Function_def Sprintf_v_def)

theorem webSearch_malformed_args_witness:
  "json_Unmarshal sample_world ''{'' ''Keyword'' [] =
     ([], Some (GoError ''unexpected end of JSON input'')) \<and>
   webSearch_Function sample_world ''{'' = ([], Returned ''unexpected end of JSON input'')"
proof -
  have h: "json_Unmarshal sample_world ''{'' ''Keyword'' [] =
      ([], Some (GoError ''unexpected end of JSON input''))"
    by (simp add: sample_world_def sample_Unmarshal_def)
  show ?thesis using h webSearch_malformed_args[OF h] by simp
qed



subsection \<open>WebReader\<close>

text \<open>
  Claim C2. The contract asks that no handler panics. WebReader breaks it: when the
  decoder yields a URL that \<^verbatim>\<open>http.NewRequest\<close> rejects, the request pointer is nil, the
  error is dropped, and the handler panics on \<^verbatim>\<open>req.Header\<close> before any call goes out, in
  both copies. The argument \<^verbatim>\<open>{"url":":"}\<close> is such an input.
\<close>

theorem WebReader_panics_on_rejected_url:
  assumes "json_Unmarshal w args ''Url'' [] = (u, None)"
    and "http_NewRequest w ''GET'' u = (None, Some e)"
  shows "WebReader_Function w args =
           ([], Panicked ''invalid memory address or nil pointer dereference'') \<and>
         WebReader_Function_001 w args =
           ([], Panicked ''invalid memory address or nil pointer dereference'')"
  using assms
  by (simp add: WebReader_Function_def WebReader_Function_001_def WebReader_with_def)

theorem WebReader_panics_on_rejected_url_witness:
  "WebReader_Function sample_world ''{\"url\":\":\"}'' =
     ([], Panicked ''invalid memory address or nil pointer dereference'') \<and>
   WebReader_Function_001 sample_world ''{\"url\":\":\"}'' =
     ([], Panicked ''invalid memory address or nil pointer dereference'')"
proof -
  have h1: "json_Unmarshal sample_world ''{\"url\":\":\"}'' ''Url'' [] = ('':'', None)"
    by (simp add: sample_world_def sample_Unmarshal_def)
  have h2: "http_NewRequest sample_world ''GET'' '':'' =
      (None, Some (GoError ''parse \":\": missing protocol scheme''))"
    by (simp add: sample_world_def sample_NewRequest_def)
  show ?thesis using WebReader_panics_on_rejected_url[OF h1 h2] by simp
qed

subsection \<open>currentTime\<close>

lemma decimal_small: "n < 10 \<Longrightarrow> decimal n = [digit n]"
  by (subst decimal.simps) simp

lemma decimal_big: "\<not> n < 10 \<Longrightarrow> decimal n = decimal (n div 10) @ [digit (n mod 10)]"
  by (subst decimal.simps) simp

lemma sample_Time_text: "Format_RFC3339 sample_Time = ''2026-10-31T12:00:07+09:00''"
  by (simp add: Format_RFC3339_def sample_Time_def appendInt_def go_div_def
      decimal_small decimal_big digit_def char_of_def bit_iff_odd)

lemma sample_Time_read:
  "Parse_RFC3339 ''2026-10-31T12:00:07+09:00'' = Some (sample_Time\<lparr>nanosecond := 0\<rparr>)"
  by (simp add: Parse_RFC3339_def parseZone_def parseUint_def isDigit_def daysIn_def
      isLeap_def sample_Time_def Let_def)

text \<open>
  Claim C7, as stated, says the returned string parses back to the invocation time. The
  layout has no fraction of a second, so it does not whenever the clock reads a non-zero
  nanosecond: here the clock reads 12:00:07.5 and the string reads back as 12:00:07.
\<close>

theorem currentTime_drops_nanoseconds:
  "snd (currentTime_Function sample_world []) = Returned ''2026-10-31T12:00:07+09:00'' \<and>
   Parse_RFC3339 ''2026-10-31T12:00:07+09:00'' \<noteq> Some (time_Now sample_world)"
proof -
  have "time_Now sample_world = sample_Time" by (simp add: sample_world_def)
  moreover have "sample_Time\<lparr>nanosecond := 0\<rparr> \<noteq> sample_Time"
    by (simp add: sample_Time_def)
  ultimately show ?thesis
    by (simp add: currentTime_Function_def sample_Time_text sample_Time_read)
qed

text \<open>
  Claim C7, amended. For every argument string the handler returns the clock's reading in
  the RFC 3339 layout, with the zone offset; it issues no call, has no error outcome, and
  gives the same result for any two argument strings. For a civil reading of the clock the
  returned string parses back to the invocation time cut to the whole second.
\<close>

theorem currentTime_reads_back_to_the_second:
  "currentTime_Function w args = ([], Returned (Format_RFC3339 (time_Now w))) \<and>
   currentTime_Function w args = currentTime_Function w args' \<and>
   (civil (time_Now w) \<longrightarrow>
      Parse_RFC3339 (Format_RFC3339 (time_Now w)) = Some ((time_Now w)\<lparr>nanosecond := 0\<rparr>))"
  by (simp add: currentTime_Function_def Format_round_trip)

theorem currentTime_reads_back_to_the_second_witness:
  "civil (time_Now sample_world) \<and>
   Parse_RFC3339 (Format_RFC3339 (time_Now sample_world)) =
     Some ((time_Now sample_world)\<lparr>nanosecond := 0\<rparr>)"
proof -
  have h: "civil (time_Now sample_world)"
    by (simp add: civil_def sample_world_def sample_Time_def daysIn_def)
  show ?thesis
    using h currentTime_reads_back_to_the_second[of sample_world "[]" "[]"] by simp
qed

section \<open>Properties of the chat view\<close>

subsection \<open>One step and many steps\<close>

lemma messages_render: "messages (render L m) = messages m"
  by (simp add: render_def Let_def)

lemma textarea_render: "textarea (render L m) = textarea m"
  by (simp add: render_def Let_def)

lemma Width_render: "Width (viewport (render L m)) = Width (viewport m)"
  by (simp add: render_def Let_def viewport_SetContent_def)

lemma Update_length:
  "length (messages (fst (Update L m x))) =
     length (messages m) + (if is_submission x \<or> is_agent_event x then 1 else 0)"
  by (cases x; cases "textarea_Update L x (textarea m)"; cases "viewport_Update L x (viewport m)")
     (auto simp: Update_def Let_def messages_render split: KeyType.splits)

lemma Update_001_length:
  "length (messages (fst (Update_001 L m x))) =
     length (messages m) + (if is_submission x \<or> is_agent_event x then 2 else 0)"
  by (cases x; cases "textarea_Update L x (textarea m)"; cases "viewport_Update L x (viewport m)")
     (auto simp: Update_001_def Let_def split: KeyType.splits)

lemma Update_prefix: "prefix (messages m) (messages (fst (Update L m x)))"
  by (cases x; cases "textarea_Update L x (textarea m)"; cases "viewport_Update L x (viewport m)")
     (auto simp: Update_def Let_def messages_render split: KeyType.splits)

lemma Update_001_prefix: "prefix (messages m) (messages (fst (Update_001 L m x)))"
  by (cases x; cases "textarea_Update L x (textarea m)"; cases "viewport_Update L x (viewport m)")
     (auto simp: Update_001_def Let_def split: KeyType.splits)

lemma ask_sends_agent_events:
  "list_all is_agent_event (ask agent_Ask question)"
  "list_all is_agent_event (ask_001 agent_Ask question)"
  by (auto simp: ask_def ask_001_def list_all_iff split: agent_result.splits)

lemma not_both: "\<not> (is_submission x \<and> is_agent_event x)"
  by (cases x) auto

lemma deliver_Cons:
  "fst (deliver L m (x # xs)) = fst (deliver L (fst (Update L m x)) xs)"
  "snd (deliver L m (x # xs)) = snd (snd (Update L m x)) @ snd (deliver L (fst (Update L m x)) xs)"
  by (simp_all split: prod.splits)

lemma deliver_001_Cons:
  "fst (deliver_001 L m (x # xs)) = fst (deliver_001 L (fst (Update_001 L m x)) xs)"
  "snd (deliver_001 L m (x # xs)) =
     snd (snd (Update_001 L m x)) @ snd (deliver_001 L (fst (Update_001 L m x)) xs)"
  by (simp_all split: prod.splits)

lemma deliver_length:
  "length (messages (fst (deliver L m xs))) =
     length (messages m) + (length (filter is_submission xs) + length (filter is_agent_event xs))"
proof (induction xs arbitrary: m)
  case Nil
  show ?case by simp
next
  case (Cons x xs)
  show ?case
    unfolding deliver_Cons Cons.IH Update_length using not_both[of x] by auto
qed

lemma deliver_001_length:
  "length (messages (fst (deliver_001 L m xs))) =
     length (messages m) + 2 * (length (filter is_submission xs) + length (filter is_agent_event xs))"
proof (induction xs arbitrary: m)
  case Nil
  show ?case by simp
next
  case (Cons x xs)
  show ?case
    unfolding deliver_001_Cons Cons.IH Update_001_length using not_both[of x] by auto
qed

lemma deliver_prefix: "prefix (messages m) (messages (fst (deliver L m xs)))"
proof (induction xs arbitrary: m)
  case Nil
  show ?case by simp
next
  case (Cons x xs)
  have "prefix (messages m) (messages (fst (Update L m x)))" by (rule Update_prefix)
  also have "prefix \<dots> (messages (fst (deliver L (fst (Update L m x)) xs)))" by (rule Cons.IH)
  finally show ?case by (simp only: deliver_Cons)
qed

lemma deliver_001_prefix: "prefix (messages m) (messages (fst (deliver_001 L m xs)))"
proof (induction xs arbitrary: m)
  case Nil
  show ?case by simp
next
  case (Cons x xs)
  have "prefix (messages m) (messages (fst (Update_001 L m x)))" by (rule Update_001_prefix)
  also have "prefix \<dots> (messages (fst (deliver_001 L (fst (Update_001 L m x)) xs)))"
    by (rule Cons.IH)
  finally show ?case by (simp only: deliver_001_Cons)
qed

lemma Enter_step:
  "messages (fst (Update L m (KeyMsg KeyEnter runes))) = messages m @
     [Render L (NewStyle\<lparr>Background := Some ''5''\<rparr>) '' You '' @ '' '' @
      Value (fst (textarea_Update L (KeyMsg KeyEnter runes) (textarea m)))]"
  "Value (textarea (fst (Update L m (KeyMsg KeyEnter runes)))) = []"
  "snd (snd (Update L m (KeyMsg KeyEnter runes))) =
     [Ask (Value (fst (textarea_Update L (KeyMsg KeyEnter runes) (textarea m))))]"
  by (cases "textarea_Update L (KeyMsg KeyEnter runes) (textarea m)";
      cases "viewport_Update L (KeyMsg KeyEnter runes) (viewport m)";
      simp add: Update_def Let_def messages_render textarea_render textarea_Reset_def)+

lemma Enter_step_001:
  "messages (fst (Update_001 L m (KeyMsg KeyEnter runes))) = messages m @
     [Render L (senderStyle m) ''You:'',
      Value (fst (textarea_Update L (KeyMsg KeyEnter runes) (textarea m))) @ ''\<newline>'']"
  "Value (textarea (fst (Update_001 L m (KeyMsg KeyEnter runes)))) = []"
  "snd (snd (Update_001 L m (KeyMsg KeyEnter runes))) =
     [Ask (Value (fst (textarea_Update L (KeyMsg KeyEnter runes) (textarea m))) @ ''\<newline>'')]"
  by (cases "textarea_Update L (KeyMsg KeyEnter runes) (textarea m)";
      cases "viewport_Update L (KeyMsg KeyEnter runes) (viewport m)";
      simp add: Update_001_def Let_def textarea_Reset_def)+

lemma render_content:
  "content (viewport (render L m)) =
     foldl (\<lambda>s message. s @
        Render L (NewStyle\<lparr>BorderStyle := Some NormalBorder, BorderBottom := True,
                    BorderForeground := Some ''241'', PaddingTop := 1,
                    PaddingLeft := 1, PaddingRight := 1\<rparr>)
          (Render L (NewStyle\<lparr>StyleWidth := Some (Width (viewport m))\<rparr>) message))
       [] (messages m)"
  by (simp add: render_def Let_def viewport_SetContent_def)

lemma render_same:
  "messages m = messages m' \<Longrightarrow> Width (viewport m) = Width (viewport m') \<Longrightarrow>
   content (viewport (render L m)) = content (viewport (render L m'))"
  by (simp add: render_content)

lemma step_content:
  "is_submission x \<or> is_agent_event x \<Longrightarrow>
   content (viewport (fst (Update L m x))) = content (viewport (render L (fst (Update L m x))))"
  by (cases x; cases "textarea_Update L x (textarea m)"; cases "viewport_Update L x (viewport m)")
     (auto simp: Update_def Let_def render_content messages_render Width_render
        viewport_GotoBottom_def split: KeyType.splits)

lemma resize_content:
  "messages m \<noteq> [] \<Longrightarrow>
   content (viewport (fst (Update L m (WindowSizeMsg w h)))) =
     content (viewport (render L (with_Width w m)))"
  by (cases "textarea_Update L (WindowSizeMsg w h) (textarea m)";
      cases "viewport_Update L (WindowSizeMsg w h) (viewport m)")
     (simp add: Update_def Let_def render_content viewport_GotoBottom_def with_Width_def)

lemma step_content_001:
  "is_submission x \<or> is_agent_event x \<Longrightarrow>
   content (viewport (fst (Update_001 L m x))) =
     Render L (NewStyle\<lparr>StyleWidth := Some (Width (viewport (fst (Update_001 L m x))))\<rparr>)
       (Join (messages (fst (Update_001 L m x))) ''\<newline>'')"
  by (cases x; cases "textarea_Update L x (textarea m)"; cases "viewport_Update L x (viewport m)")
     (auto simp: Update_001_def Let_def viewport_SetContent_def
        viewport_GotoBottom_def split: KeyType.splits)

lemma resize_content_001:
  "messages m \<noteq> [] \<Longrightarrow>
   content (viewport (fst (Update_001 L m (WindowSizeMsg w h)))) =
     Render L (NewStyle\<lparr>StyleWidth := Some w\<rparr>) (Join (messages m) ''\<newline>'')"
  by (cases "textarea_Update L (WindowSizeMsg w h) (textarea m)";
      cases "viewport_Update L (WindowSizeMsg w h) (viewport m)")
     (simp add: Update_001_def Let_def viewport_SetContent_def viewport_GotoBottom_def)

lemma sample_run_000:
  "deliver plain_ui (initialModel plain_ui) sample_run =
     ((initialModel plain_ui)\<lparr>messages := ['' You  hi'', '' Agent  yo''],
        viewport := \<lparr>Width = 30, Height = 5, content = '' You  hi Agent  yo'', vp_rest = 0\<rparr>\<rparr>,
      [Ask ''hi''])"
  by (simp add: sample_run_def Update_def plain_ui_def plain_insert_def initialModel_def
      initial_textarea_def textarea_New_def Let_def render_def viewport_SetContent_def
      viewport_GotoBottom_def viewport_New_def textarea_Reset_def answerMessage_Content_def)

lemma sample_run_001:
  "deliver_001 plain_ui (initialModel_001 plain_ui) sample_run =
     ((initialModel_001 plain_ui)\<lparr>messages := [''You:'', ''hi\<newline>'', ''Agent'', ''yo''],
        viewport := \<lparr>Width = 30, Height = 5,
          content = ''You:\<newline>hi\<newline>\<newline>Agent\<newline>yo'', vp_rest = 0\<rparr>\<rparr>,
      [Ask ''hi\<newline>''])"
  by (simp add: sample_run_def Update_001_def plain_ui_def plain_insert_def initialModel_001_def
      initial_textarea_def textarea_New_def Let_def viewport_SetContent_def
      viewport_GotoBottom_def viewport_New_def textarea_Reset_def)

lemma after_run_values:
  "messages after_run = ['' You  hi'', '' Agent  yo'']"
  "Width (viewport after_run) = 30"
  "messages after_run_001 = [''You:'', ''hi\<newline>'', ''Agent'', ''yo'']"
  by (simp_all add: after_run_def after_run_001_def sample_run_000 sample_run_001)

lemma plain_ui_values:
  "viewport_Update plain_ui x vp = (vp, Nil)"
  "Render plain_ui st s = s"
  by (simp_all add: plain_ui_def)

subsection \<open>The claims about the chat view\<close>

text \<open>
  Claim C6. The transcript is append-only. Whatever message \<^verbatim>\<open>Update\<close> receives (a
  submission, an agent event, a resize, any key, an error, anything else), the transcript
  before the step is a prefix of the transcript after it; so it is over any sequence of
  steps. No entry is changed, moved or removed. Both copies of the program.
\<close>

theorem transcript_append_only:
  "prefix (messages m) (messages (fst (Update L m x))) \<and>
   prefix (messages m1) (messages (fst (Update_001 L m1 x))) \<and>
   prefix (messages m) (messages (fst (deliver L m xs))) \<and>
   prefix (messages m1) (messages (fst (deliver_001 L m1 xs)))"
  by (simp add: Update_prefix Update_001_prefix deliver_prefix deliver_001_prefix)

text \<open>
  Claim C1, as stated, counts one element of \<^verbatim>\<open>messages\<close> per submission and per agent
  event. The older copy appends two elements each time, the label and the text: after
  one submission its list has two elements, not one.
\<close>

theorem transcript_length_001_doubles:
  "length (messages (fst (deliver_001 plain_ui (initialModel_001 plain_ui) [KeyMsg KeyEnter []])))
     = 2 \<and>
   length (filter is_submission [KeyMsg KeyEnter []]) +
     length (filter is_agent_event [KeyMsg KeyEnter []]) = 1 \<and>
   length (messages (fst (deliver_001 plain_ui (initialModel_001 plain_ui) [KeyMsg KeyEnter []])))
     \<noteq> length (filter is_submission [KeyMsg KeyEnter []]) +
        length (filter is_agent_event [KeyMsg KeyEnter []])"
  by (simp add: deliver_001_Cons Enter_step_001 initialModel_001_def del: deliver_001.simps(2))

text \<open>
  Claim C1, amended. After any sequence of messages with N submissions and M agent events,
  in any interleaving and with any other messages in between, the transcript of the
  program file has exactly N + M elements, one per submission and one per agent event;
  the transcript of the older copy has exactly 2 * (N + M), a label element and a text
  element for each. Started from a model that already has entries, the same numbers are
  added to its length.
\<close>

theorem transcript_length:
  "length (messages (fst (deliver L (initialModel L) xs))) =
     length (filter is_submission xs) + length (filter is_agent_event xs) \<and>
   length (messages (fst (deliver_001 L (initialModel_001 L) xs))) =
     2 * (length (filter is_submission xs) + length (filter is_agent_event xs)) \<and>
   length (messages (fst (deliver L m xs))) =
     length (messages m) + (length (filter is_submission xs) + length (filter is_agent_event xs)) \<and>
   length (messages (fst (deliver_001 L m1 xs))) =
     length (messages m1) +
       2 * (length (filter is_submission xs) + length (filter is_agent_event xs)) \<and>
   length (messages (fst (Update L m x))) =
     length (messages m) + (if is_submission x \<or> is_agent_event x then 1 else 0) \<and>
   length (messages (fst (Update_001 L m1 x))) =
     length (messages m1) + (if is_submission x \<or> is_agent_event x then 2 else 0)"
  by (simp add: deliver_length deliver_001_length Update_length Update_001_length
      initialModel_def initialModel_001_def)

theorem transcript_length_witness:
  "length (messages (fst (deliver plain_ui (initialModel plain_ui) sample_run))) = 2 \<and>
   length (messages (fst (deliver_001 plain_ui (initialModel_001 plain_ui) sample_run))) = 4"
  using transcript_length[of plain_ui sample_run "initialModel plain_ui"
      "initialModel_001 plain_ui" "KeyMsg KeyEnter []"]
  by (simp add: sample_run_def)

text \<open>
  Claim C5, as stated, has the submission dispatch the text of the box and append one
  entry. In the older copy the box holds \<^verbatim>\<open>hi\<close>, the question dispatched is \<^verbatim>\<open>hi\<close>
  followed by a newline, and two elements are appended.
\<close>

theorem submit_001_adds_newline:
  "Value (fst (textarea_Update plain_ui (KeyMsg KeyEnter []) (textarea typed_hi_001))) = ''hi'' \<and>
   snd (snd (Update_001 plain_ui typed_hi_001 (KeyMsg KeyEnter []))) = [Ask ''hi\<newline>''] \<and>
   snd (snd (Update_001 plain_ui typed_hi_001 (KeyMsg KeyEnter []))) \<noteq> [Ask ''hi''] \<and>
   messages (fst (Update_001 plain_ui typed_hi_001 (KeyMsg KeyEnter []))) =
     messages typed_hi_001 @ [''You:'', ''hi\<newline>'']"
  by (simp add: Enter_step_001 typed_hi_001_def plain_ui_def)

text \<open>
  Claim C5, amended. Let \<open>text\<close> be what the box holds when the Enter branch reads it (any
  string, the empty one included; nothing is checked). In the program file the step
  appends exactly one element, the ``You'' badge, a space and \<open>text\<close>; it leaves the box
  empty and its one effect is the dispatch of \<open>text\<close> to the agent. In the older copy the
  step appends two elements, the ``You:'' label and \<open>text\<close> followed by a newline, leaves
  the box empty, and dispatches \<open>text\<close> followed by a newline. The dispatch is an effect
  handed to a goroutine: the result of \<^verbatim>\<open>Update\<close> is a function of the model and the
  message alone, no answer of the agent enters it.
\<close>

theorem submit_step:
  "messages (fst (Update L m (KeyMsg KeyEnter runes))) = messages m @
     [Render L (NewStyle\<lparr>Background := Some ''5''\<rparr>) '' You '' @ '' '' @
      Value (fst (textarea_Update L (KeyMsg KeyEnter runes) (textarea m)))] \<and>
   Value (textarea (fst (Update L m (KeyMsg KeyEnter runes)))) = [] \<and>
   snd (snd (Update L m (KeyMsg KeyEnter runes))) =
     [Ask (Value (fst (textarea_Update L (KeyMsg KeyEnter runes) (textarea m))))] \<and>
   messages (fst (Update_001 L m1 (KeyMsg KeyEnter runes))) = messages m1 @
     [Render L (senderStyle m1) ''You:'',
      Value (fst (textarea_Update L (KeyMsg KeyEnter runes) (textarea m1))) @ ''\<newline>''] \<and>
   Value (textarea (fst (Update_001 L m1 (KeyMsg KeyEnter runes)))) = [] \<and>
   snd (snd (Update_001 L m1 (KeyMsg KeyEnter runes))) =
     [Ask (Value (fst (textarea_Update L (KeyMsg KeyEnter runes) (textarea m1))) @ ''\<newline>'')]"
  by (simp add: Enter_step Enter_step_001)

theorem submit_step_witness:
  "messages (fst (Update plain_ui typed_hi (KeyMsg KeyEnter []))) = ['' You  hi''] \<and>
   Value (textarea (fst (Update plain_ui typed_hi (KeyMsg KeyEnter [])))) = [] \<and>
   snd (snd (Update plain_ui typed_hi (KeyMsg KeyEnter []))) = [Ask ''hi'']"
proof -
  have "Value (fst (textarea_Update plain_ui (KeyMsg KeyEnter []) (textarea typed_hi))) = ''hi''"
    "messages typed_hi = []" "Render plain_ui = (\<lambda>st s. s)"
    by (simp_all add: typed_hi_def plain_ui_def initialModel_def)
  then show ?thesis
    using submit_step[of plain_ui typed_hi "[]" typed_hi_001] by simp
qed

text \<open>
  Claim C3. The content that \<^verbatim>\<open>render\<close> writes into the viewport is a function of the
  transcript and the viewport width alone. Rendering twice gives the content of rendering
  once; replacing the rest of the viewport (its old content, its height, its scroll
  position), the input box and the error changes nothing; rendering at one width and then
  at another gives what rendering at the second width alone gives; and \<^verbatim>\<open>render\<close>
  changes neither the transcript nor the width. After a submission, an agent event, or a
  resize with a non-empty transcript, the viewport shows exactly this function of the new
  transcript and width; in the older copy, which inlines the expression, the wrapped join
  of the transcript at the viewport's width.
\<close>

theorem render_depends_on_transcript_and_width:
  "content (viewport (render L (render L m))) = content (viewport (render L m)) \<and>
   content (viewport (render L
      (m\<lparr>viewport := vp\<lparr>Width := Width (viewport m)\<rparr>, textarea := ta, err := e\<rparr>))) =
     content (viewport (render L m)) \<and>
   content (viewport (render L (with_Width w2 (render L (with_Width w1 m))))) =
     content (viewport (render L (with_Width w2 m))) \<and>
   messages (render L m) = messages m \<and>
   Width (viewport (render L m)) = Width (viewport m) \<and>
   (is_submission x \<or> is_agent_event x \<longrightarrow>
      content (viewport (fst (Update L m x))) =
        content (viewport (render L (fst (Update L m x))))) \<and>
   (messages m \<noteq> [] \<longrightarrow>
      content (viewport (fst (Update L m (WindowSizeMsg w h)))) =
        content (viewport (render L (with_Width w m)))) \<and>
   (is_submission x \<or> is_agent_event x \<longrightarrow>
      content (viewport (fst (Update_001 L m1 x))) =
        Render L (NewStyle\<lparr>StyleWidth := Some (Width (viewport (fst (Update_001 L m1 x))))\<rparr>)
          (Join (messages (fst (Update_001 L m1 x))) ''\<newline>'')) \<and>
   (messages m1 \<noteq> [] \<longrightarrow>
      content (viewport (fst (Update_001 L m1 (WindowSizeMsg w h)))) =
        Render L (NewStyle\<lparr>StyleWidth := Some w\<rparr>) (Join (messages m1) ''\<newline>''))"
proof -
  have a: "content (viewport (render L (render L m))) = content (viewport (render L m))"
    by (rule render_same) (simp_all add: messages_render Width_render)
  have b: "content (viewport (render L
      (m\<lparr>viewport := vp\<lparr>Width := Width (viewport m)\<rparr>, textarea := ta, err := e\<rparr>))) =
     content (viewport (render L m))"
    by (rule render_same) simp_all
  have c: "content (viewport (render L (with_Width w2 (render L (with_Width w1 m))))) =
     content (viewport (render L (with_Width w2 m)))"
    by (rule render_same) (simp_all add: with_Width_def messages_render)
  show ?thesis
    using a b c step_content[of x L m] resize_content[of m L w h]
      step_content_001[of x L m1] resize_content_001[of m1 L w h]
    by (simp add: messages_render Width_render)
qed

theorem render_depends_on_transcript_and_width_witness:
  "is_agent_event (answerMessage ''ok'') \<and>
   messages after_run \<noteq> [] \<and>
   messages after_run_001 \<noteq> [] \<and>
   content (viewport (fst (Update plain_ui after_run (answerMessage ''ok'')))) =
     '' You  hi Agent  yo Agent  ok'' \<and>
   content (viewport (render plain_ui (fst (Update plain_ui after_run (answerMessage ''ok''))))) =
     '' You  hi Agent  yo Agent  ok'' \<and>
   content (viewport (fst (Update plain_ui after_run (WindowSizeMsg 80 24)))) =
     '' You  hi Agent  yo'' \<and>
   content (viewport (render plain_ui (with_Width 80 after_run))) = '' You  hi Agent  yo'' \<and>
   content (viewport (fst (Update_001 plain_ui after_run_001 (answerMessage ''ok'')))) =
     ''You:\<newline>hi\<newline>\<newline>Agent\<newline>yo\<newline>Agent\<newline>ok'' \<and>
   content (viewport (fst (Update_001 plain_ui after_run_001 (WindowSizeMsg 80 24)))) =
     ''You:\<newline>hi\<newline>\<newline>Agent\<newline>yo''"
proof -
  have r: "content (viewport (render plain_ui (with_Width 80 after_run))) = '' You  hi Agent  yo''"
    by (simp add: render_content after_run_values plain_ui_values with_Width_def)
  have u: "content (viewport (fst (Update plain_ui after_run (answerMessage ''ok'')))) =
     '' You  hi Agent  yo Agent  ok''"
    by (simp add: Update_def Let_def render_content after_run_values plain_ui_values
        viewport_GotoBottom_def answerMessage_Content_def split: prod.splits)
  have u1: "messages (fst (Update_001 plain_ui after_run_001 (answerMessage ''ok''))) =
      [''You:'', ''hi\<newline>'', ''Agent'', ''yo'', ''Agent'', ''ok'']"
    by (simp add: Update_001_def Let_def after_run_values plain_ui_values split: prod.splits)
  show ?thesis
    using r u u1 render_depends_on_transcript_and_width[of plain_ui after_run _ _ _ _ _
        "answerMessage ''ok''" 80 24 after_run_001]
    by (simp add: after_run_values plain_ui_values)
qed

end
